theory Spec2Isabelle
  imports Complex_Main "HOL-Library.Sublist"
begin

section \<open>JavaScript numbers\<close>

text \<open>
  The utilities of \<^verbatim>\<open>imageUtils.ts\<close> compute with JavaScript numbers. A number is
  modelled as a real, or one of the three non-finite values a division or a square root can
  produce. Finite arithmetic is exact: binary rounding and the sign of zero are left out
  (a zero divisor counts as \<open>+0\<close>), the non-finite cases follow IEEE 754.
\<close>

datatype jsnum = Fin real | PInf | NInf | NaN

fun isNaN :: "jsnum \<Rightarrow> bool" where
  "isNaN NaN = True"
| "isNaN _ = False"

fun js_neg :: "jsnum \<Rightarrow> jsnum" where
  "js_neg (Fin a) = Fin (- a)"
| "js_neg PInf = NInf"
| "js_neg NInf = PInf"
| "js_neg NaN = NaN"

fun js_add :: "jsnum \<Rightarrow> jsnum \<Rightarrow> jsnum" where
  "js_add (Fin a) (Fin b) = Fin (a + b)"
| "js_add NaN _ = NaN"
| "js_add _ NaN = NaN"
| "js_add PInf NInf = NaN"
| "js_add NInf PInf = NaN"
| "js_add PInf _ = PInf"
| "js_add _ PInf = PInf"
| "js_add NInf _ = NInf"
| "js_add _ NInf = NInf"

definition js_sub :: "jsnum \<Rightarrow> jsnum \<Rightarrow> jsnum" where
  "js_sub a b = js_add a (js_neg b)"

text \<open>The sign of an infinite product or quotient, by the sign of the finite operand.\<close>

definition signed_inf :: "bool \<Rightarrow> jsnum" where
  "signed_inf positive = (if positive then PInf else NInf)"

fun js_mul :: "jsnum \<Rightarrow> jsnum \<Rightarrow> jsnum" where
  "js_mul (Fin a) (Fin b) = Fin (a * b)"
| "js_mul NaN _ = NaN"
| "js_mul _ NaN = NaN"
| "js_mul (Fin a) PInf = (if a = 0 then NaN else signed_inf (0 < a))"
| "js_mul (Fin a) NInf = (if a = 0 then NaN else signed_inf (a < 0))"
| "js_mul PInf (Fin b) = (if b = 0 then NaN else signed_inf (0 < b))"
| "js_mul NInf (Fin b) = (if b = 0 then NaN else signed_inf (b < 0))"
| "js_mul PInf PInf = PInf"
| "js_mul PInf NInf = NInf"
| "js_mul NInf PInf = NInf"
| "js_mul NInf NInf = PInf"

fun js_div :: "jsnum \<Rightarrow> jsnum \<Rightarrow> jsnum" where
  "js_div (Fin a) (Fin b) =
     (if b \<noteq> 0 then Fin (a / b) else if a = 0 then NaN else signed_inf (0 < a))"
| "js_div NaN _ = NaN"
| "js_div _ NaN = NaN"
| "js_div (Fin a) _ = Fin 0"
| "js_div PInf (Fin b) = signed_inf (0 \<le> b)"
| "js_div NInf (Fin b) = signed_inf (b < 0)"
| "js_div _ _ = NaN"

fun js_sqrt :: "jsnum \<Rightarrow> jsnum" where
  "js_sqrt (Fin a) = (if a < 0 then NaN else Fin (sqrt a))"
| "js_sqrt PInf = PInf"
| "js_sqrt _ = NaN"

fun js_floor :: "jsnum \<Rightarrow> jsnum" where
  "js_floor (Fin a) = Fin (of_int \<lfloor>a\<rfloor>)"
| "js_floor v = v"

fun js_ceil :: "jsnum \<Rightarrow> jsnum" where
  "js_ceil (Fin a) = Fin (of_int \<lceil>a\<rceil>)"
| "js_ceil v = v"

fun js_abs :: "jsnum \<Rightarrow> jsnum" where
  "js_abs (Fin a) = Fin \<bar>a\<bar>"
| "js_abs NaN = NaN"
| "js_abs _ = PInf"

text \<open>Comparisons: every comparison with \<open>NaN\<close> is false.\<close>

fun js_lt :: "jsnum \<Rightarrow> jsnum \<Rightarrow> bool" where
  "js_lt (Fin a) (Fin b) = (a < b)"
| "js_lt NaN _ = False"
| "js_lt _ NaN = False"
| "js_lt _ NInf = False"
| "js_lt PInf _ = False"
| "js_lt _ _ = True"

fun js_le :: "jsnum \<Rightarrow> jsnum \<Rightarrow> bool" where
  "js_le (Fin a) (Fin b) = (a \<le> b)"
| "js_le NaN _ = False"
| "js_le _ NaN = False"
| "js_le NInf _ = True"
| "js_le _ PInf = True"
| "js_le _ _ = False"

definition js_gt :: "jsnum \<Rightarrow> jsnum \<Rightarrow> bool" where
  "js_gt a b = js_lt b a"

definition js_ge :: "jsnum \<Rightarrow> jsnum \<Rightarrow> bool" where
  "js_ge a b = js_le b a"

text \<open>\<^verbatim>\<open>Math.max\<close> and \<^verbatim>\<open>Math.min\<close> of two arguments: \<open>NaN\<close> if either is.\<close>

definition js_max :: "jsnum \<Rightarrow> jsnum \<Rightarrow> jsnum" where
  "js_max a b = (if isNaN a \<or> isNaN b then NaN else if js_lt a b then b else a)"

definition js_min :: "jsnum \<Rightarrow> jsnum \<Rightarrow> jsnum" where
  "js_min a b = (if isNaN a \<or> isNaN b then NaN else if js_lt b a then b else a)"

section \<open>Unit conversion\<close>

text \<open>
  \<^verbatim>\<open>convertUnits\<close>: four arrow functions; the second parameter defaults to 96 when the
  caller leaves it out (\<open>None\<close>).
\<close>

definition dpi_or_default :: "jsnum option \<Rightarrow> jsnum" where
  "dpi_or_default dpi = (case dpi of None \<Rightarrow> Fin 96 | Some d \<Rightarrow> d)"

definition pixelsToInches :: "jsnum \<Rightarrow> jsnum option \<Rightarrow> jsnum" where
  "pixelsToInches pixels dpi = js_div pixels (dpi_or_default dpi)"

definition inchesToPixels :: "jsnum \<Rightarrow> jsnum option \<Rightarrow> jsnum" where
  "inchesToPixels inches dpi = js_mul inches (dpi_or_default dpi)"

definition pixelsToCm :: "jsnum \<Rightarrow> jsnum option \<Rightarrow> jsnum" where
  "pixelsToCm pixels dpi = js_mul (js_div pixels (dpi_or_default dpi)) (Fin 2.54)"

definition cmToPixels :: "jsnum \<Rightarrow> jsnum option \<Rightarrow> jsnum" where
  "cmToPixels cm dpi = js_mul (js_div cm (Fin 2.54)) (dpi_or_default dpi)"

section \<open>Files, images, canvases and the codec\<close>

text \<open>
  A \<^verbatim>\<open>File\<close> or \<^verbatim>\<open>Blob\<close> is its byte size and an opaque payload; a \<^verbatim>\<open>File\<close> also has
  a name and a MIME type. A decoded image has its dimensions and opaque pixels.
\<close>

record blob =
  bsize :: nat
  bdata :: nat

record jsfile =
  fsize :: nat
  fname :: string
  ftype :: string
  fdata :: nat

record image =
  img_width :: nat
  img_height :: nat
  naturalWidth :: nat
  naturalHeight :: nat
  pixels :: nat

text \<open>\<^verbatim>\<open>new File([blob], file.name, { type: file.type })\<close>\<close>

definition new_File :: "blob \<Rightarrow> jsfile \<Rightarrow> jsfile" where
  "new_File b f = \<lparr>fsize = bsize b, fname = fname f, ftype = ftype f, fdata = bdata b\<rparr>"

text \<open>
  The two forms of \<^verbatim>\<open>drawImage\<close> the utilities call: with a destination rectangle, and
  with a source rectangle and a destination rectangle.
\<close>

datatype drawcall =
  DrawImage image jsnum jsnum jsnum jsnum
| DrawImageRegion image jsnum jsnum jsnum jsnum jsnum jsnum jsnum jsnum

text \<open>
  A canvas is modelled by what the code asks of it: the numbers assigned to its
  \<^verbatim>\<open>width\<close> and \<^verbatim>\<open>height\<close> (the element keeps them as integers; for whole numbers
  of pixels the two agree) and the draw calls made since its bitmap was last reset.
  Assigning either dimension resets the bitmap. A new canvas element is 300 by 150 and
  blank.
\<close>

record canvas =
  canvas_width :: jsnum
  canvas_height :: jsnum
  canvas_ops :: "drawcall list"

definition createCanvas :: canvas where
  "createCanvas = \<lparr>canvas_width = Fin 300, canvas_height = Fin 150, canvas_ops = []\<rparr>"

definition set_width :: "jsnum \<Rightarrow> canvas \<Rightarrow> canvas" where
  "set_width w c = c\<lparr>canvas_width := w, canvas_ops := []\<rparr>"

definition set_height :: "jsnum \<Rightarrow> canvas \<Rightarrow> canvas" where
  "set_height h c = c\<lparr>canvas_height := h, canvas_ops := []\<rparr>"

definition draw :: "drawcall \<Rightarrow> canvas \<Rightarrow> canvas" where
  "draw d c = c\<lparr>canvas_ops := canvas_ops c @ [d]\<rparr>"

text \<open>
  The host environment, which the utilities only call: decoding a file into an image
  (\<open>None\<close>: the \<^verbatim>\<open>onerror\<close> callback fires), whether \<^verbatim>\<open>getContext('2d')\<close> gives a
  context, and \<^verbatim>\<open>canvas.toBlob(callback, type, quality)\<close>, the encoder, whose callback
  receives a blob or \<^verbatim>\<open>null\<close>.
\<close>

record env =
  load_image :: "jsfile \<Rightarrow> image option"
  getContext :: bool
  toBlob :: "canvas \<Rightarrow> string \<Rightarrow> jsnum \<Rightarrow> blob option"

text \<open>The three rejections of the promises, by their messages.\<close>

datatype error =
  NoContext \<comment> \<open>\<^verbatim>\<open>Could not get canvas context\<close>\<close>
| BlobFailed \<comment> \<open>\<^verbatim>\<open>Failed to create blob\<close>\<close>
| LoadFailed \<comment> \<open>\<^verbatim>\<open>Failed to load image\<close>\<close>

text \<open>Every call of the encoder is logged, in order, with what it returned.\<close>

record encode_call =
  call_canvas :: canvas
  call_type :: string
  call_quality :: jsnum
  call_result :: "blob option"

definition encode :: "env \<Rightarrow> canvas \<Rightarrow> string \<Rightarrow> jsnum \<Rightarrow> encode_call" where
  "encode e c ty q =
     \<lparr>call_canvas = c, call_type = ty, call_quality = q, call_result = toBlob e c ty q\<rparr>"

section \<open>Resizing to a target size\<close>

text \<open>The variables \<^verbatim>\<open>resizeImageToSize\<close> declares and \<^verbatim>\<open>compressStep\<close> updates.\<close>

record search_state =
  width :: jsnum
  height :: jsnum
  quality :: jsnum
  currentIteration :: int
  currentSize :: nat
  bestMatchFile :: "jsfile option"
  bestMatchDiff :: jsnum
  canvas_of :: canvas

text \<open>
  One pass of \<^verbatim>\<open>compressStep\<close>, up to the encoder call: the counter, the ratio and the
  three branches that change the dimensions or the quality.
\<close>

definition adjust :: "jsnum \<Rightarrow> search_state \<Rightarrow> search_state" where
  "adjust targetSize st =
     (let st1 = st\<lparr>currentIteration := currentIteration st + 1\<rparr>;
          ratio = js_sqrt (js_div targetSize (Fin (real (currentSize st))));
          sizeDifference = js_sub (Fin (real (currentSize st))) targetSize
      in if js_gt sizeDifference (Fin 0) then
           (if js_gt sizeDifference (js_mul targetSize (Fin 0.5)) then
              st1\<lparr>width := js_floor (js_mul (width st) (js_max ratio (Fin 0.7))),
                  height := js_floor (js_mul (height st) (js_max ratio (Fin 0.7)))\<rparr>
            else
              st1\<lparr>quality := js_max (js_mul (quality st)
                   (js_add (Fin 0.95) (js_mul (js_sub ratio (Fin 1)) (Fin 0.1)))) (Fin 0.5)\<rparr>)
         else
           st1\<lparr>width := js_floor (js_div (width st) (js_min ratio (Fin 1.2))),
               height := js_floor (js_div (height st) (js_min ratio (Fin 1.2))),
               quality := js_min (js_mul (quality st) (Fin 1.05)) (Fin 1)\<rparr>)"

text \<open>Setting the canvas dimensions and drawing the image at the new dimensions.\<close>

definition redraw :: "image \<Rightarrow> search_state \<Rightarrow> search_state" where
  "redraw img st =
     st\<lparr>canvas_of := draw (DrawImage img (Fin 0) (Fin 0) (width st) (height st))
          (set_height (height st) (set_width (width st) (canvas_of st)))\<rparr>"

text \<open>The blob callback: the new current size and the best match so far.\<close>

definition track :: "jsnum \<Rightarrow> jsfile \<Rightarrow> blob \<Rightarrow> search_state \<Rightarrow> search_state" where
  "track targetSize f b st =
     (let st1 = st\<lparr>currentSize := bsize b\<rparr>;
          diff = js_abs (js_sub (Fin (real (bsize b))) targetSize)
      in if js_lt diff (bestMatchDiff st)
         then st1\<lparr>bestMatchDiff := diff, bestMatchFile := Some (new_File b f)\<rparr>
         else st1)"

definition within_tolerance :: "jsnum \<Rightarrow> nat \<Rightarrow> bool" where
  "within_tolerance targetSize sz =
     (let tolerance = js_mul targetSize (Fin 0.05)
      in js_le (Fin (real sz)) (js_add targetSize tolerance)
         \<and> js_ge (Fin (real sz)) (js_sub targetSize tolerance))"

function compressStep ::
  "env \<Rightarrow> image \<Rightarrow> jsfile \<Rightarrow> jsnum \<Rightarrow> int \<Rightarrow> search_state \<Rightarrow> (error + jsfile) \<times> encode_call list"
where
  "compressStep e img f targetSize maxIterations st =
     (if maxIterations \<le> currentIteration st then
        (case bestMatchFile st of
           Some best \<Rightarrow> (Inr best, [])
         | None \<Rightarrow>
             (let call = encode e (canvas_of st) (ftype f) (quality st)
              in case call_result call of
                   None \<Rightarrow> (Inl BlobFailed, [call])
                 | Some b \<Rightarrow> (Inr (new_File b f), [call])))
      else
        (let st1 = redraw img (adjust targetSize st);
             call = encode e (canvas_of st1) (ftype f) (quality st1)
         in case call_result call of
              None \<Rightarrow> (Inl BlobFailed, [call])
            | Some b \<Rightarrow>
                if within_tolerance targetSize (bsize b)
                then (Inr (new_File b f), [call])
                else apsnd ((#) call)
                  (compressStep e img f targetSize maxIterations (track targetSize f b st1))))"
  by pat_completeness auto
termination
  by (relation "measure (\<lambda>(e, img, f, targetSize, maxIterations, st).
        nat (maxIterations - currentIteration st))")
     (auto simp: adjust_def redraw_def track_def Let_def)

declare compressStep.simps [simp del]

text \<open>
  \<^verbatim>\<open>resizeImageToSize(file, targetSize, maxIterations = 20)\<close>: the promise's outcome and
  the encoder calls made. The iteration limit is an integer count, 20 when the caller
  leaves it out (\<open>None\<close>).
\<close>

definition iteration_limit :: "int option \<Rightarrow> int" where
  "iteration_limit maxIterations = (case maxIterations of None \<Rightarrow> 20 | Some m \<Rightarrow> m)"

definition resizeImageToSize ::
  "env \<Rightarrow> jsfile \<Rightarrow> jsnum \<Rightarrow> int option \<Rightarrow> (error + jsfile) \<times> encode_call list"
where
  "resizeImageToSize e f targetSize maxIterations =
     (case load_image e f of
        None \<Rightarrow> (Inl LoadFailed, [])
      | Some img \<Rightarrow>
          if js_le (Fin (real (fsize f))) targetSize then
            (if \<not> getContext e then (Inl NoContext, [])
             else
               (let scaleFactor = js_sqrt (js_div targetSize (Fin (real (fsize f))));
                    w = js_ceil (js_mul (Fin (real (img_width img))) scaleFactor);
                    h = js_ceil (js_mul (Fin (real (img_height img))) scaleFactor);
                    q = Fin 1;
                    c = draw (DrawImage img (Fin 0) (Fin 0) w h)
                          (set_height h (set_width w createCanvas));
                    call = encode e c (ftype f) q
                in case call_result call of
                     None \<Rightarrow> (Inl BlobFailed, [call])
                   | Some b \<Rightarrow> (Inr (new_File b f), [call])))
          else
            (if \<not> getContext e then (Inl NoContext, [])
             else compressStep e img f targetSize (iteration_limit maxIterations)
                    \<lparr>width = Fin (real (img_width img)),
                     height = Fin (real (img_height img)),
                     quality = Fin 0.9,
                     currentIteration = 0,
                     currentSize = fsize f,
                     bestMatchFile = None,
                     bestMatchDiff = PInf,
                     canvas_of = createCanvas\<rparr>))"

section \<open>Cropping\<close>

record crop_area =
  crop_x :: jsnum
  crop_y :: jsnum
  crop_width :: jsnum
  crop_height :: jsnum

record dimensions =
  dim_width :: jsnum
  dim_height :: jsnum

text \<open>\<^verbatim>\<open>cropImage(file, cropArea, canvasDimensions)\<close>\<close>

definition cropImage ::
  "env \<Rightarrow> jsfile \<Rightarrow> crop_area \<Rightarrow> dimensions \<Rightarrow> (error + jsfile) \<times> encode_call list"
where
  "cropImage e f cropArea canvasDimensions =
     (case load_image e f of
        None \<Rightarrow> (Inl LoadFailed, [])
      | Some img \<Rightarrow>
          if \<not> getContext e then (Inl NoContext, [])
          else
            (let c0 = set_height (crop_height cropArea)
                        (set_width (crop_width cropArea) createCanvas);
                 scaleX = js_div (Fin (real (naturalWidth img))) (dim_width canvasDimensions);
                 scaleY = js_div (Fin (real (naturalHeight img))) (dim_height canvasDimensions);
                 scaledCropArea =
                   \<lparr>crop_x = js_mul (crop_x cropArea) scaleX,
                    crop_y = js_mul (crop_y cropArea) scaleY,
                    crop_width = js_mul (crop_width cropArea) scaleX,
                    crop_height = js_mul (crop_height cropArea) scaleY\<rparr>;
                 c = draw (DrawImageRegion img
                       (crop_x scaledCropArea) (crop_y scaledCropArea)
                       (crop_width scaledCropArea) (crop_height scaledCropArea)
                       (Fin 0) (Fin 0) (canvas_width c0) (canvas_height c0)) c0;
                 call = encode e c (ftype f) (Fin 1)
             in case call_result call of
                  None \<Rightarrow> (Inl BlobFailed, [call])
                | Some b \<Rightarrow> (Inr (new_File b f), [call])))"

section \<open>Parsing a size\<close>

text \<open>
  Strings are lists of 8-bit characters; the library functions below are modelled on ASCII
  text. \<^verbatim>\<open>parseFloat\<close> skips leading white space and reads the longest prefix that is a
  signed decimal literal, \<open>NaN\<close> when there is none; the literal's value is taken exactly.
\<close>

definition is_white :: "char \<Rightarrow> bool" where
  "is_white c = (c \<in> set [CHR '' '', CHR 0x09, CHR 0x0A, CHR 0x0B, CHR 0x0C, CHR 0x0D])"

definition digit_of :: "char \<Rightarrow> nat option" where
  "digit_of c = map_of (zip ''0123456789'' [0, 1, 2, 3, 4, 5, 6, 7, 8, 9]) c"

definition is_digit :: "char \<Rightarrow> bool" where
  "is_digit c = (digit_of c \<noteq> None)"

text \<open>The value of a string of decimal digits, most significant first.\<close>

definition digits_value :: "string \<Rightarrow> nat" where
  "digits_value ds = foldl (\<lambda>n c. 10 * n + (case digit_of c of None \<Rightarrow> 0 | Some d \<Rightarrow> d)) 0 ds"

text \<open>
  The exponent part at the head of a string: \<^verbatim>\<open>e\<close> or \<^verbatim>\<open>E\<close>, an optional sign and at
  least one digit; 0 when the string does not start with one.
\<close>

definition exponent_of :: "string \<Rightarrow> int" where
  "exponent_of s =
     (case s of
        [] \<Rightarrow> 0
      | c # r \<Rightarrow>
          if c = CHR ''e'' \<or> c = CHR ''E'' then
            (case r of
               [] \<Rightarrow> 0
             | d # r' \<Rightarrow>
                 if d = CHR ''+'' then int (digits_value (takeWhile is_digit r'))
                 else if d = CHR ''-'' then - int (digits_value (takeWhile is_digit r'))
                 else int (digits_value (takeWhile is_digit r)))
          else 0)"

definition pow_int :: "real \<Rightarrow> int \<Rightarrow> real" where
  "pow_int b i = (if 0 \<le> i then b ^ nat i else 1 / b ^ nat (- i))"

text \<open>
  An unsigned literal: \<^verbatim>\<open>Infinity\<close>, or digits with an optional fraction and exponent, or
  a fraction with an optional exponent.
\<close>

definition parse_unsigned :: "string \<Rightarrow> jsnum" where
  "parse_unsigned s =
     (if prefix ''Infinity'' s then PInf
      else
        (let ip = takeWhile is_digit s;
             r1 = dropWhile is_digit s;
             fp = (case r1 of [] \<Rightarrow> []
                   | c # r \<Rightarrow> if c = CHR ''.'' then takeWhile is_digit r else []);
             r2 = (case r1 of [] \<Rightarrow> []
                   | c # r \<Rightarrow> if c = CHR ''.'' then dropWhile is_digit r else r1)
         in if ip = [] \<and> fp = [] then NaN
            else Fin ((real (digits_value ip) + real (digits_value fp) / 10 ^ length fp)
                      * pow_int 10 (exponent_of r2))))"

definition parseFloat :: "string \<Rightarrow> jsnum" where
  "parseFloat s =
     (case dropWhile is_white s of
        [] \<Rightarrow> NaN
      | c # r \<Rightarrow>
          if c = CHR ''+'' then parse_unsigned r
          else if c = CHR ''-'' then js_neg (parse_unsigned r)
          else parse_unsigned (c # r))"

definition lower_char :: "char \<Rightarrow> char" where
  "lower_char c =
     (case map_of (zip ''ABCDEFGHIJKLMNOPQRSTUVWXYZ'' ''abcdefghijklmnopqrstuvwxyz'') c of
        None \<Rightarrow> c | Some l \<Rightarrow> l)"

definition toLowerCase :: "string \<Rightarrow> string" where
  "toLowerCase s = map lower_char s"

text \<open>\<^verbatim>\<open>s.includes(t)\<close>: \<open>t\<close> occurs in \<open>s\<close> as a contiguous substring.\<close>

fun str_includes :: "string \<Rightarrow> string \<Rightarrow> bool" where
  "str_includes [] t = (t = [])"
| "str_includes (c # s) t = (prefix t (c # s) \<or> str_includes s t)"

definition parseFileSize :: "string \<Rightarrow> jsnum" where
  "parseFileSize sizeStr =
     (let v = parseFloat sizeStr
      in if isNaN v then Fin 0
         else if str_includes (toLowerCase sizeStr) ''kb'' then js_mul v (Fin 1024)
         else if str_includes (toLowerCase sizeStr) ''mb''
           then js_mul (js_mul v (Fin 1024)) (Fin 1024)
         else if str_includes (toLowerCase sizeStr) ''gb''
           then js_mul (js_mul (js_mul v (Fin 1024)) (Fin 1024)) (Fin 1024)
         else v)"

section \<open>Formatting a size\<close>

text \<open>
  \<^verbatim>\<open>formatFileSize(bytes, decimals = 2)\<close>, for a byte count (a natural number, as a
  file's size is). \<^verbatim>\<open>toFixed\<close> throws a \<^verbatim>\<open>RangeError\<close> above 100 digits.
\<close>

datatype exception = RangeError

definition sizes :: "string list" where
  "sizes = [''Bytes'', ''KB'', ''MB'', ''GB'']"

text \<open>Indexing the array: outside it the element is \<^verbatim>\<open>undefined\<close>, and prints as such.\<close>

definition sizes_at :: "int \<Rightarrow> string" where
  "sizes_at i = (if 0 \<le> i \<and> i < int (length sizes) then sizes ! nat i else ''undefined'')"

definition digit_char :: "nat \<Rightarrow> char" where
  "digit_char d = ''0123456789'' ! d"

fun show_nat :: "nat \<Rightarrow> string" where
  "show_nat n = (if n < 10 then [digit_char n] else show_nat (n div 10) @ [digit_char (n mod 10)])"

declare show_nat.simps [simp del]

text \<open>
  \<^verbatim>\<open>parseFloat(v.toFixed(dm))\<close> as it prints in a string concatenation, for \<open>v \<ge> 0\<close>:
  \<open>v\<close> rounded to \<open>dm\<close> decimals, halves up, in plain decimal notation without trailing
  zeros (the notation of numbers below \<open>10\<^sup>2\<^sup>1\<close>).
\<close>

definition show_fixed :: "real \<Rightarrow> nat \<Rightarrow> string" where
  "show_fixed v dm =
     (let n = nat \<lfloor>v * 10 ^ dm + 1 / 2\<rfloor>;
          frac = replicate (dm - length (show_nat (n mod 10 ^ dm))) (CHR ''0'')
                   @ show_nat (n mod 10 ^ dm);
          digits = rev (dropWhile (\<lambda>c. c = CHR ''0'') (rev frac))
      in show_nat (n div 10 ^ dm) @ (if digits = [] then [] else CHR ''.'' # digits))"

definition formatFileSize :: "nat \<Rightarrow> int option \<Rightarrow> exception + string" where
  "formatFileSize bytes decimals =
     (if bytes = 0 then Inr ''0 Bytes''
      else
        (let k = 1024;
             dec = (case decimals of None \<Rightarrow> 2 | Some d \<Rightarrow> d);
             dm = (if dec < 0 then 0 else dec);
             i = \<lfloor>ln (real bytes) / ln k\<rfloor>
         in if 100 < dm then Inl RangeError
            else Inr (show_fixed (real bytes / pow_int k i) (nat dm) @ '' '' @ sizes_at i)))"

section \<open>The caller of the resize operation\<close>

text \<open>
  \<^verbatim>\<open>resizeImage\<close> of the hook \<^verbatim>\<open>useImageProcessor\<close>: what it returns (the processed
  file of its result, \<open>None\<close> for \<^verbatim>\<open>null\<close>), the toast it shows, and the encoder calls
  made. The component state it sets and the texts of the two non-error toasts are left out.
\<close>

datatype toast = ToastError string | ToastWarning | ToastSuccess

definition resizeImage ::
  "env \<Rightarrow> jsfile option \<Rightarrow> string \<Rightarrow> (jsfile option \<times> toast) \<times> encode_call list"
where
  "resizeImage e originalImage targetSizeStr =
     (case originalImage of
        None \<Rightarrow> ((None, ToastError ''Please upload an image first''), [])
      | Some orig \<Rightarrow>
          (let targetSizeBytes = parseFileSize targetSizeStr
           in if js_le targetSizeBytes (Fin 0)
              then ((None, ToastError ''Please enter a valid file size''), [])
              else
                (case resizeImageToSize e orig targetSizeBytes None of
                   (Inl err, calls) \<Rightarrow> ((None, ToastError ''Failed to resize image''), calls)
                 | (Inr resizedFile, calls) \<Rightarrow>
                     (let difference =
                            js_abs (js_sub (Fin (real (fsize resizedFile))) targetSizeBytes);
                          differencePercentage =
                            js_mul (js_div difference targetSizeBytes) (Fin 100)
                      in ((Some resizedFile,
                           if js_gt differencePercentage (Fin 10)
                           then ToastWarning else ToastSuccess), calls)))))"

section \<open>Notions used in the statements\<close>







text \<open>A finite quality between 0.5 and 1.\<close>

definition quality_ok :: "jsnum \<Rightarrow> bool" where
  "quality_ok v = (case v of Fin q \<Rightarrow> 1 / 2 \<le> q \<and> q \<le> 1 | _ \<Rightarrow> False)"

section \<open>Example inputs\<close>

text \<open>
  A 1600-byte JPEG of 1000 by 500 pixels, and an encoder that returns 100 bytes for a
  canvas 700 wide and 410 bytes for any other.
\<close>

definition img_w :: image where
  "img_w = \<lparr>img_width = 1000, img_height = 500, naturalWidth = 1000, naturalHeight = 500,
            pixels = 7\<rparr>"

definition env_w :: env where
  "env_w = \<lparr>load_image = (\<lambda>f. Some img_w),
            getContext = True,
            toBlob = (\<lambda>c ty q.
              Some \<lparr>bsize = (if canvas_width c = Fin 700 then 100 else 410), bdata = 0\<rparr>)\<rparr>"

definition file_w :: jsfile where
  "file_w = \<lparr>fsize = 1600, fname = ''photo.jpg'', ftype = ''image/jpeg'', fdata = 7\<rparr>"

text \<open>
  The state of the search on the example file, against a target of 400 bytes, after the
  first attempt: 700 by 350 pixels at quality 0.9 came out at 100 bytes.
\<close>

definition st_small :: search_state where
  "st_small =
     \<lparr>width = Fin 700, height = Fin 350, quality = Fin 0.9, currentIteration = 1,
      currentSize = 100,
      bestMatchFile =
        Some \<lparr>fsize = 100, fname = ''photo.jpg'', ftype = ''image/jpeg'', fdata = 0\<rparr>,
      bestMatchDiff = Fin 300,
      canvas_of = \<lparr>canvas_width = Fin 700, canvas_height = Fin 350,
        canvas_ops = [DrawImage img_w (Fin 0) (Fin 0) (Fin 700) (Fin 350)]\<rparr>\<rparr>"

text \<open>
  An 8000 by 6000 image, large enough for twenty reductions to 70% to leave a canvas of
  some pixels, and an encoder that returns 410 bytes for every canvas.
\<close>

definition img_z :: image where
  "img_z = \<lparr>img_width = 8000, img_height = 6000, naturalWidth = 8000, naturalHeight = 6000,
            pixels = 5\<rparr>"

definition env_z :: env where
  "env_z = \<lparr>load_image = (\<lambda>f. Some img_z),
            getContext = True,
            toBlob = (\<lambda>c ty q. Some \<lparr>bsize = 410, bdata = 1\<rparr>)\<rparr>"


text \<open>
  A 400 by 400 image shown at 200 by 200, with a crop region inside the display, one that
  reaches 50 pixels beyond its right edge, and one that starts left of it.
\<close>

definition img_c :: image where
  "img_c = \<lparr>img_width = 400, img_height = 400, naturalWidth = 400, naturalHeight = 400,
            pixels = 9\<rparr>"

definition env_c :: env where
  "env_c = \<lparr>load_image = (\<lambda>f. Some img_c),
            getContext = True,
            toBlob = (\<lambda>c ty q. Some \<lparr>bsize = 410, bdata = 1\<rparr>)\<rparr>"

definition display_c :: dimensions where
  "display_c = \<lparr>dim_width = Fin 200, dim_height = Fin 200\<rparr>"


definition area_out :: crop_area where
  "area_out = \<lparr>crop_x = Fin 150, crop_y = Fin 0, crop_width = Fin 100, crop_height = Fin 100\<rparr>"

definition area_left :: crop_area where
  "area_left = \<lparr>crop_x = Fin (- 10), crop_y = Fin 0, crop_width = Fin 100,
                crop_height = Fin 100\<rparr>"

section \<open>Unit conversion: round trips\<close>

text \<open>
  Claim C10. For every number \<open>x\<close> and every finite \<open>dpi > 0\<close>, converting inches to
  pixels and back gives \<open>x\<close> again, and so does converting centimetres to pixels and
  back: in exact arithmetic the two pairs are inverses, with no rounding inside the
  converter.
\<close>

theorem convertUnits_roundtrip:
  assumes "0 < dpi"
  shows "pixelsToInches (inchesToPixels x (Some (Fin dpi))) (Some (Fin dpi)) = x
       \<and> pixelsToCm (cmToPixels x (Some (Fin dpi))) (Some (Fin dpi)) = x"
  using assms
  by (cases x)
     (simp_all add: pixelsToInches_def inchesToPixels_def pixelsToCm_def cmToPixels_def
        dpi_or_default_def signed_inf_def)

theorem convertUnits_roundtrip_witness:
  "(0::real) < 300
   \<and> pixelsToInches (inchesToPixels (Fin 3) (Some (Fin 300))) (Some (Fin 300)) = Fin 3
   \<and> pixelsToCm (cmToPixels (Fin 5.08) (Some (Fin 300))) (Some (Fin 300)) = Fin 5.08"
  using convertUnits_roundtrip [of 300 "Fin 3"] convertUnits_roundtrip [of 300 "Fin 5.08"]
  by simp

section \<open>The undershoot branch\<close>

lemmas run_defs = resizeImageToSize_def iteration_limit_def compressStep.simps adjust_def
  redraw_def track_def within_tolerance_def encode_def createCanvas_def set_width_def
  set_height_def draw_def js_sub_def js_gt_def js_ge_def js_max_def js_min_def new_File_def
  Let_def real_sqrt_divide env_w_def file_w_def img_w_def

text \<open>
  Claim C1, on the example file against a target of 400 bytes. The first attempt, 700 by
  350 pixels, comes out at 100 bytes, below the target, so the next pass takes the
  undershoot branch: the size difference is not positive and the ratio is 2, capped at
  1.2. Dividing by the capped ratio takes the width from 700 down to 583 and the height
  from 350 down to 291, where the comment of the branch and the claim say the dimensions
  increase; the quality goes from 0.9 to 0.945, as claimed. The second attempt of the
  run is made on the smaller canvas.
\<close>

theorem adjust_undershoot_shrinks:
  "\<not> js_gt (js_sub (Fin (real (currentSize st_small))) (Fin 400)) (Fin 0)
   \<and> width st_small = Fin 700 \<and> width (adjust (Fin 400) st_small) = Fin 583
   \<and> height st_small = Fin 350 \<and> height (adjust (Fin 400) st_small) = Fin 291
   \<and> quality st_small = Fin 0.9 \<and> quality (adjust (Fin 400) st_small) = Fin 0.945
   \<and> map (\<lambda>c. (canvas_width (call_canvas c), canvas_height (call_canvas c),
                 map_option bsize (call_result c)))
        (snd (resizeImageToSize env_w file_w (Fin 400) None))
       = [(Fin 700, Fin 350, Some 100), (Fin 583, Fin 291, Some 410)]"
  by (simp add: run_defs st_small_def)

section \<open>The quality stays between 0.5 and 1\<close>

lemma quality_ok_Fin [simp]: "quality_ok (Fin q) = (1 / 2 \<le> q \<and> q \<le> 1)"
  by (simp add: quality_ok_def)

lemma quality_okE:
  assumes "quality_ok v"
  obtains q where "v = Fin q" and "1 / 2 \<le> q" and "q \<le> 1"
  using assms by (cases v) (auto simp: quality_ok_def)

text \<open>The factor of the close-to-target branch is between 0.85 and 0.95.\<close>

lemma close_quality:
  fixes q t c :: real
  assumes q: "1 / 2 \<le> q" "q \<le> 1" and tc: "0 < t" "t < c"
  shows "q * (95 / 10\<^sup>2 + (sqrt (t / c) - 1) * (1 / 10)) \<le> 1"
proof -
  define r where "r = sqrt (t / c)"
  have "t / c \<le> 1" "0 \<le> t / c" using tc by simp_all
  then have r: "r \<le> 1" "0 \<le> r"
    unfolding r_def by (simp_all only: real_sqrt_le_1_iff real_sqrt_ge_0_iff)
  then have "95 / 10\<^sup>2 + (r - 1) * (1 / 10) \<le> 1" "0 \<le> 95 / 10\<^sup>2 + (r - 1) * (1 / 10)"
    by (simp_all add: field_simps)
  then have "q * (95 / 10\<^sup>2 + (r - 1) * (1 / 10)) \<le> 1 * 1"
    using q by (intro mult_mono) auto
  then show ?thesis by (simp add: r_def)
qed

lemma adjust_quality_ok:
  assumes "quality_ok (quality st)"
  shows "quality_ok (quality (adjust targetSize st))"
proof -
  from assms obtain q where q: "quality st = Fin q" "1 / 2 \<le> q" "q \<le> 1"
    by (rule quality_okE)
  show ?thesis
  proof (cases targetSize)
    case (Fin t)
    show ?thesis
    proof (cases "0 < real (currentSize st) - t \<and> \<not> t * (5 / 10) < real (currentSize st) - t")
      case True
      then have tc: "0 < t" "t < real (currentSize st)" by auto
      then have "real (currentSize st) \<noteq> 0" "\<not> t / real (currentSize st) < 0"
        by (auto simp: not_less)
      with True tc close_quality [OF q(2,3) tc] show ?thesis
        using q Fin by (simp add: adjust_def js_sub_def js_gt_def js_max_def Let_def)
    next
      case False
      then show ?thesis
        using q Fin by (auto simp: adjust_def js_sub_def js_gt_def js_min_def Let_def)
    qed
  qed (use q in \<open>auto simp: adjust_def js_sub_def js_gt_def js_min_def Let_def signed_inf_def\<close>)
qed

lemma compressStep_quality:
  assumes "quality_ok (quality st)"
  shows "\<forall>c\<in>set (snd (compressStep e img f targetSize maxIterations st)).
           quality_ok (call_quality c)"
  using assms
proof (induction e img f targetSize maxIterations st rule: compressStep.induct)
  case (1 e img f targetSize maxIterations st)
  let ?st1 = "redraw img (adjust targetSize st)"
  have q1: "quality_ok (quality ?st1)"
    using adjust_quality_ok [OF "1.prems"] by (simp add: redraw_def)
  show ?case
  proof (cases "maxIterations \<le> currentIteration st")
    case True
    then show ?thesis using "1.prems"
      by (subst compressStep.simps) (auto simp: encode_def Let_def split: option.splits)
  next
    case False
    show ?thesis
    proof (cases "toBlob e (canvas_of ?st1) (ftype f) (quality ?st1)")
      case None
      then show ?thesis using False q1
        by (subst compressStep.simps) (simp add: encode_def Let_def)
    next
      case (Some b)
      show ?thesis
      proof (cases "within_tolerance targetSize (bsize b)")
        case True
        then show ?thesis using False q1 Some
          by (subst compressStep.simps) (simp add: encode_def Let_def)
      next
        case far: False
        have q2: "quality_ok (quality (track targetSize f b ?st1))"
          using q1 by (simp add: track_def Let_def)
        have "\<forall>c\<in>set (snd (compressStep e img f targetSize maxIterations
                  (track targetSize f b ?st1))). quality_ok (call_quality c)"
          using "1.IH" [OF False refl refl _ far q2] Some by (simp add: encode_def)
        then show ?thesis using False q1 Some far
          by (subst compressStep.simps) (simp add: encode_def Let_def)
      qed
    qed
  qed
qed

text \<open>The run on the example inputs: the second attempt is within 5% of 400 bytes.\<close>

lemma run_w:
  "resizeImageToSize env_w file_w (Fin 400) None =
     (Inr \<lparr>fsize = 410, fname = ''photo.jpg'', ftype = ''image/jpeg'', fdata = 0\<rparr>,
      [\<lparr>call_canvas = \<lparr>canvas_width = Fin 700, canvas_height = Fin 350,
          canvas_ops = [DrawImage img_w (Fin 0) (Fin 0) (Fin 700) (Fin 350)]\<rparr>,
        call_type = ''image/jpeg'', call_quality = Fin 0.9,
        call_result = Some \<lparr>bsize = 100, bdata = 0\<rparr>\<rparr>,
       \<lparr>call_canvas = \<lparr>canvas_width = Fin 583, canvas_height = Fin 291,
          canvas_ops = [DrawImage img_w (Fin 0) (Fin 0) (Fin 583) (Fin 291)]\<rparr>,
        call_type = ''image/jpeg'', call_quality = Fin 0.945,
        call_result = Some \<lparr>bsize = 410, bdata = 0\<rparr>\<rparr>])"
  by (simp add: run_defs)

text \<open>
  Claim C7. In every run of \<^verbatim>\<open>resizeImageToSize\<close>, whatever the target, the iteration
  limit and the encoder, every call of the encoder is made with a finite quality between
  0.5 and 1: the search starts at 0.9, the close-to-target branch does not go below 0.5
  nor above the previous quality, the far-from-target branch leaves the quality alone and
  the undershoot branch does not go above 1.
\<close>

theorem resize_quality_in_range:
  "\<forall>c\<in>set (snd (resizeImageToSize e f targetSize maxIterations)).
     quality_ok (call_quality c)"
proof (cases "load_image e f")
  case None
  then show ?thesis by (simp add: resizeImageToSize_def)
next
  case (Some img)
  have "\<forall>c\<in>set (snd (compressStep e img f targetSize (iteration_limit maxIterations)
      \<lparr>width = Fin (real (img_width img)), height = Fin (real (img_height img)),
       quality = Fin 0.9, currentIteration = 0, currentSize = fsize f,
       bestMatchFile = None, bestMatchDiff = PInf, canvas_of = createCanvas\<rparr>)).
       quality_ok (call_quality c)"
    by (rule compressStep_quality) simp
  with Some show ?thesis
    by (auto simp: resizeImageToSize_def encode_def Let_def split: option.splits)
qed

theorem resize_quality_in_range_witness:
  "map call_quality (snd (resizeImageToSize env_w file_w (Fin 400) None))
     = [Fin 0.9, Fin 0.945]
   \<and> list_all (\<lambda>c. quality_ok (call_quality c))
        (snd (resizeImageToSize env_w file_w (Fin 400) None))"
  using resize_quality_in_range [of env_w file_w "Fin 400" None]
  by (simp add: run_w list_all_iff)


section \<open>The shrink regime returns a result\<close>
















section \<open>The growth regime\<close>



section \<open>Cropping: one draw call, one encoding\<close>



text \<open>
  Claim C2 as stated fails: the region from x = 150 with width 100 reaches beyond the
  display width 200, and \<^verbatim>\<open>cropImage\<close> resolves with the encoded file.
\<close>

theorem cropImage_out_of_bounds_resolves:
  "js_gt (js_add (crop_x area_out) (crop_width area_out)) (dim_width display_c)
   \<and> fst (cropImage env_c file_w area_out display_c)
       = Inr \<lparr>fsize = 410, fname = ''photo.jpg'', ftype = ''image/jpeg'', fdata = 1\<rparr>"
  by (simp add: cropImage_def area_out_def display_c_def file_w_def env_c_def img_c_def
      encode_def new_File_def Let_def js_gt_def)

text \<open>
  Claim C2, amended. \<^verbatim>\<open>cropImage\<close> does not check the region: for every region and
  display dimensions, inside the bounds or not, when the image loads, a context is
  available and the encoder returns a blob, it resolves with that blob as a file after
  one call of the encoder. Its rejections are a failed load, a missing context and an
  encoder that returns no blob.
\<close>

theorem cropImage_no_region_check:
  assumes "load_image e f = Some img" and "getContext e"
    and "\<forall>c\<in>set (snd (cropImage e f cropArea canvasDimensions)). call_result c \<noteq> None"
  shows "\<exists>c b. cropImage e f cropArea canvasDimensions = (Inr (new_File b f), [c])
           \<and> call_result c = Some b"
  using assms
  by (auto simp: cropImage_def Let_def split: option.splits)

theorem cropImage_no_region_check_witness:
  "js_lt (crop_x area_left) (Fin 0)
   \<and> load_image env_c file_w = Some img_c \<and> getContext env_c
   \<and> list_all (\<lambda>c. call_result c \<noteq> None) (snd (cropImage env_c file_w area_left display_c))
   \<and> (\<exists>c b. cropImage env_c file_w area_left display_c = (Inr (new_File b file_w), [c])
          \<and> call_result c = Some b)"
proof -
  have h: "load_image env_c file_w = Some img_c" "getContext env_c"
    by (simp_all add: env_c_def)
  have ok: "\<forall>c\<in>set (snd (cropImage env_c file_w area_left display_c)). call_result c \<noteq> None"
    by (simp add: cropImage_def env_c_def encode_def Let_def)
  have neg: "js_lt (crop_x area_left) (Fin 0)" by (simp add: area_left_def)
  from cropImage_no_region_check [OF h ok] h ok neg show ?thesis
    by (simp add: list_all_iff)
qed


section \<open>Parsing a size: the multipliers\<close>

lemmas parse_defs = parseFloat_def parse_unsigned_def is_white_def is_digit_def digit_of_def
  digits_value_def exponent_of_def pow_int_def toLowerCase_def lower_char_def Let_def

text \<open>
  Claim C9. \<^verbatim>\<open>parseFileSize\<close> is total: it returns a number for every string and raises
  nothing. With \<open>v\<close> the number \<^verbatim>\<open>parseFloat\<close> reads at the head of the string, the result
  is 0 when \<open>v\<close> is \<open>NaN\<close>; otherwise \<open>v\<close> times 1024 when the lower-cased string contains
  \<^verbatim>\<open>kb\<close>, else \<open>v\<close> times \<open>1024\<^sup>2\<close> when it contains \<^verbatim>\<open>mb\<close>, else \<open>v\<close> times \<open>1024\<^sup>3\<close> when
  it contains \<^verbatim>\<open>gb\<close>, else \<open>v\<close> itself. The units are tried in this order.
\<close>

theorem parseFileSize_cases:
  "parseFileSize s =
     (if isNaN (parseFloat s) then Fin 0
      else if str_includes (toLowerCase s) ''kb'' then js_mul (parseFloat s) (Fin 1024)
      else if str_includes (toLowerCase s) ''mb'' then js_mul (parseFloat s) (Fin (1024 ^ 2))
      else if str_includes (toLowerCase s) ''gb'' then js_mul (parseFloat s) (Fin (1024 ^ 3))
      else parseFloat s)"
  by (cases "parseFloat s") (simp_all add: parseFileSize_def Let_def signed_inf_def)

theorem parseFileSize_cases_witness:
  "parseFileSize ''1.5 KB'' = Fin 1536
   \<and> parseFileSize ''5 mb'' = Fin 5242880
   \<and> parseFileSize ''2 Gb'' = Fin 2147483648
   \<and> parseFileSize ''  300'' = Fin 300
   \<and> parseFileSize ''about 5 MB'' = Fin 0
   \<and> parseFileSize '''' = Fin 0"
  using parseFileSize_cases [of "''1.5 KB''"] parseFileSize_cases [of "''5 mb''"]
    parseFileSize_cases [of "''2 Gb''"] parseFileSize_cases [of "''  300''"]
    parseFileSize_cases [of "''about 5 MB''"] parseFileSize_cases [of "''''"]
  by (simp add: parse_defs)

section \<open>The check of the target size\<close>

text \<open>
  Claim C3 as stated fails: called with a target of 0 bytes and the default limit,
  \<^verbatim>\<open>resizeImageToSize\<close> makes its twenty attempts, each on a canvas of some pixels, and
  resolves with the best of them.
\<close>

theorem resize_zero_target_resolves:
  "js_le (Fin 0) (Fin 0)
   \<and> fst (resizeImageToSize env_z file_w (Fin 0) None)
       = Inr \<lparr>fsize = 410, fname = ''photo.jpg'', ftype = ''image/jpeg'', fdata = 1\<rparr>
   \<and> length (snd (resizeImageToSize env_z file_w (Fin 0) None)) = 20
   \<and> list_all (\<lambda>c. js_lt (Fin 0) (canvas_width (call_canvas c))
                   \<and> js_lt (Fin 0) (canvas_height (call_canvas c)))
        (snd (resizeImageToSize env_z file_w (Fin 0) None))"
  by (simp add: resizeImageToSize_def iteration_limit_def compressStep.simps adjust_def
      redraw_def track_def within_tolerance_def encode_def createCanvas_def set_width_def
      set_height_def draw_def js_sub_def js_gt_def js_ge_def js_max_def js_min_def
      new_File_def Let_def env_z_def file_w_def img_z_def)

lemma parseFileSize_not_NaN: "\<not> isNaN (parseFileSize s)"
  by (cases "parseFloat s") (simp_all add: parseFileSize_def Let_def signed_inf_def)

lemma js_gt_if_not_le: "\<not> isNaN v \<Longrightarrow> \<not> js_le v (Fin 0) \<Longrightarrow> js_gt v (Fin 0)"
  by (cases v) (simp_all add: js_gt_def)

text \<open>
  Claim C3, amended. The check is made by the caller, not by the operation:
  \<^verbatim>\<open>resizeImage\<close> parses the size the user typed and, when it is 0 or less, shows
  \<^verbatim>\<open>Please enter a valid file size\<close> and returns \<^verbatim>\<open>null\<close> without calling
  \<^verbatim>\<open>resizeImageToSize\<close>; so it returns a resized file only for a target above 0.
\<close>

theorem resizeImage_checks_target:
  "(js_le (parseFileSize s) (Fin 0) \<longrightarrow>
      resizeImage e (Some orig) s
        = ((None, ToastError ''Please enter a valid file size''), []))
   \<and> (fst (fst (resizeImage e originalImage s)) = Some resized \<longrightarrow>
        js_gt (parseFileSize s) (Fin 0))"
proof (intro conjI impI)
  assume "js_le (parseFileSize s) (Fin 0)"
  then show "resizeImage e (Some orig) s
      = ((None, ToastError ''Please enter a valid file size''), [])"
    by (simp add: resizeImage_def)
next
  assume a: "fst (fst (resizeImage e originalImage s)) = Some resized"
  have "\<not> js_le (parseFileSize s) (Fin 0)"
  proof
    assume "js_le (parseFileSize s) (Fin 0)"
    with a show False
      by (cases originalImage) (simp_all add: resizeImage_def)
  qed
  with parseFileSize_not_NaN show "js_gt (parseFileSize s) (Fin 0)"
    by (rule js_gt_if_not_le)
qed

theorem resizeImage_checks_target_witness:
  "js_le (parseFileSize ''0 KB'') (Fin 0)
   \<and> resizeImage env_w (Some file_w) ''0 KB''
       = ((None, ToastError ''Please enter a valid file size''), [])
   \<and> fst (fst (resizeImage env_w (Some file_w) ''400''))
       = Some \<lparr>fsize = 410, fname = ''photo.jpg'', ftype = ''image/jpeg'', fdata = 0\<rparr>
   \<and> js_gt (parseFileSize ''400'') (Fin 0)"
proof -
  have p0: "parseFileSize ''0 KB'' = Fin 0"
    by (simp add: parseFileSize_def parse_defs)
  have p4: "parseFileSize ''400'' = Fin 400"
    by (simp add: parseFileSize_def parse_defs)
  have r: "fst (fst (resizeImage env_w (Some file_w) ''400''))
       = Some \<lparr>fsize = 410, fname = ''photo.jpg'', ftype = ''image/jpeg'', fdata = 0\<rparr>"
    by (simp add: resizeImage_def p4 run_w Let_def js_sub_def js_gt_def)
  from resizeImage_checks_target [of "''0 KB''" env_w file_w "Some file_w"]
    resizeImage_checks_target [of "''400''" env_w file_w "Some file_w"
      "\<lparr>fsize = 410, fname = ''photo.jpg'', ftype = ''image/jpeg'', fdata = 0\<rparr>"]
    r
  show ?thesis by (simp add: p0)
qed

section \<open>Formatting a size: the units\<close>

lemma unit_index:
  assumes "1024 ^ n \<le> bytes" and "bytes < 1024 ^ (n + 1)"
  shows "\<lfloor>ln (real bytes) / ln 1024\<rfloor> = int n"
proof -
  have pos: "0 < bytes" using assms(1) by (cases bytes) auto
  have "\<lfloor>log (real (1024::nat)) (real bytes)\<rfloor> = int n"
    using assms pos by (subst floor_log_nat_eq_powr_iff) auto
  then show ?thesis by (simp add: log_def)
qed

lemma formatFileSize_unit:
  assumes "1024 ^ n \<le> bytes" and "bytes < 1024 ^ (n + 1)"
  shows "formatFileSize bytes None
         = Inr (show_fixed (real bytes / 1024 ^ n) 2 @ '' '' @ sizes_at (int n))"
proof -
  have "bytes \<noteq> 0" using assms(1) by (cases bytes) auto
  then show ?thesis
    by (simp only: formatFileSize_def Let_def unit_index [OF assms] pow_int_def) simp
qed

text \<open>
  Claim C8, at 2 TiB. \<open>formatFileSize(0)\<close> is \<^verbatim>\<open>0 Bytes\<close>, and sizes below \<open>1024\<^sup>4\<close>
  get one of the four units, but the unit index is not held within the array of units:
  for \<open>2 * 1024\<^sup>4\<close> bytes the index is 4 and the result is \<^verbatim>\<open>2 undefined\<close>, where the
  claim has a unit among Bytes, KB, MB and GB for every size.
\<close>

theorem formatFileSize_beyond_units:
  "formatFileSize 0 None = Inr ''0 Bytes''
   \<and> formatFileSize 1536 None = Inr ''1.5 KB''
   \<and> formatFileSize 2199023255552 None = Inr ''2 undefined''"
  using formatFileSize_unit [of 1 1536] formatFileSize_unit [of 4 2199023255552]
  by (simp add: formatFileSize_def [of 0] show_fixed_def sizes_at_def sizes_def digit_char_def
      show_nat.simps Let_def)


end
